theory Spec2Isabelle
  imports Complex_Main
begin

section \<open>Data model\<close>

text \<open>
  The rows of the two tables the stock ledger works on, as the Sequelize models declare
  them. An INTEGER column holds an integer between -2147483648 and 2147483647, and the
  \<^verbatim>\<open>reason\<close> of a transaction is a STRING, a text of at most 255 characters: the
  database rejects a statement that would store anything else, and any text that holds
  the character NUL. The price and the cost are DECIMAL(10, 2): rounded to two places and
  below 10^8. Texts are sequences of ASCII characters. Identifiers are the
  auto-incremented primary keys; a sequence is advanced by the INSERT that succeeds (a
  value that a failed INSERT may use up in the database would only change the
  identifiers of later rows). The timestamps Sequelize adds are left out: rows are kept
  in insertion order, which is the order of \<^verbatim>\<open>createdAt\<close>.
\<close>

datatype transaction_type = TypeIn | TypeOut | TypeAdjustment

record product =
  idP :: nat
  name :: string
  description :: "string option"
  sku :: string
  barcode :: "string option"
  categoryId :: int
  supplierId :: "int option"
  price :: rat
  cost :: rat
  stockQuantity :: int
  minStockLevel :: int
  maxStockLevel :: "int option"
  unit :: string
  location :: "string option"
  isActive :: bool

record transaction =
  idT :: nat
  productId :: nat
  userId :: nat
  type :: transaction_type
  quantity :: int
  previousStock :: int
  newStock :: int
  reason :: string
  notesT :: "string option"
  reference :: "string option"

text \<open>
  The persistent store: the Products and Transactions tables in insertion order, the
  two primary-key sequences, and the categories (id and name) that \<^verbatim>\<open>createProduct\<close>
  reads when it generates a SKU.
\<close>

record store =
  products :: "product list"
  transactions :: "transaction list"
  categories :: "(int \<times> string) list"
  productSeq :: nat
  transactionSeq :: nat

definition maxInteger :: int where
  "maxInteger = 2147483647"

definition minInteger :: int where
  "minInteger = - 2147483648"

text \<open>What a TEXT column, a STRING column and a DECIMAL(10, 2) column take.\<close>

definition textTaken :: "string \<Rightarrow> bool" where
  "textTaken t = (CHR 0x00 \<notin> set t)"

definition stringTaken :: "string \<Rightarrow> bool" where
  "stringTaken t = (length t \<le> 255 \<and> textTaken t)"

definition optionalTaken :: "(string \<Rightarrow> bool) \<Rightarrow> string option \<Rightarrow> bool" where
  "optionalTaken taken t = (case t of None \<Rightarrow> True | Some u \<Rightarrow> taken u)"

definition dbDecimal :: "rat \<Rightarrow> rat option" where
  "dbDecimal x =
     (let cents = round (x * 100)
      in if abs cents < 10 ^ 10 then Some (of_int cents / 100) else None)"

section \<open>JavaScript values of the numeric request fields\<close>

text \<open>
  A numeric field of a request body is a JSON number holding an integer or a JSON text:
  the validation chains have no \<^verbatim>\<open>toInt()\<close>, so the handler receives the value as
  it was sent. \<open>NaN\<close> is what \<^verbatim>\<open>Number\<close> makes of a text that is no number; a request
  never holds it. Other JSON values (fractions, null, booleans, arrays, objects) are not
  modelled. Integers are exact: a number beyond the 53 bits of a double is beyond the
  INTEGER range and never reaches the store.
\<close>

datatype jsvalue = Num int | Str string | NaN

definition digitOf :: "char \<Rightarrow> nat option" where
  "digitOf c = map_of (zip ''0123456789'' [0, 1, 2, 3, 4, 5, 6, 7, 8, 9]) c"

fun digitsValue :: "nat \<Rightarrow> string \<Rightarrow> nat option" where
  "digitsValue acc [] = Some acc"
| "digitsValue acc (c # cs) =
     (case digitOf c of None \<Rightarrow> None | Some d \<Rightarrow> digitsValue (10 * acc + d) cs)"

definition unsignedNumber :: "string \<Rightarrow> nat option" where
  "unsignedNumber s = (if s = [] then None else digitsValue 0 s)"

text \<open>
  The integer that a text of the shape \<^verbatim>\<open>^[-+]?[0-9]+$\<close> denotes, for \<^verbatim>\<open>Number\<close> and
  for the integer input of the database alike; \<open>None\<close> for any other text. The handlers
  apply it to texts that passed \<^verbatim>\<open>isInt()\<close> and to such a text appended to a decimal
  number, and on those \<open>None\<close> is \<^verbatim>\<open>NaN\<close>, respectively a rejected statement.
\<close>

definition toNumber :: "string \<Rightarrow> int option" where
  "toNumber s =
     (case s of
        [] \<Rightarrow> None
      | c # cs \<Rightarrow>
          if c = CHR ''-'' then map_option (\<lambda>n. - int n) (unsignedNumber cs)
          else if c = CHR ''+'' then map_option int (unsignedNumber cs)
          else map_option int (unsignedNumber s))"

text \<open>\<^verbatim>\<open>String(n)\<close> of an integer below 10^21.\<close>

fun natText :: "nat \<Rightarrow> string" where
  "natText n = (if n < 10 then [''0123456789'' ! n]
                else natText (n div 10) @ [''0123456789'' ! (n mod 10)])"

declare natText.simps [simp del]

definition decimal :: "int \<Rightarrow> string" where
  "decimal i = (if i < 0 then CHR ''-'' # natText (nat (- i)) else natText (nat i))"

definition jsNumber :: "jsvalue \<Rightarrow> int option" where
  "jsNumber v = (case v of Num n \<Rightarrow> Some n | Str t \<Rightarrow> toNumber t | NaN \<Rightarrow> None)"

text \<open>\<^verbatim>\<open>previousStock + quantity\<close>: a sum of numbers, or the text of the number with the text
  appended.\<close>

definition jsPlus :: "int \<Rightarrow> jsvalue \<Rightarrow> jsvalue" where
  "jsPlus p v = (case v of Num n \<Rightarrow> Num (p + n) | Str t \<Rightarrow> Str (decimal p @ t) | NaN \<Rightarrow> NaN)"

text \<open>\<^verbatim>\<open>v < 0\<close> and \<^verbatim>\<open>v > 0\<close>: false when \<^verbatim>\<open>Number(v)\<close> is \<^verbatim>\<open>NaN\<close>.\<close>

definition jsNegative :: "jsvalue \<Rightarrow> bool" where
  "jsNegative v = (case jsNumber v of None \<Rightarrow> False | Some n \<Rightarrow> n < 0)"

definition jsPositive :: "jsvalue \<Rightarrow> bool" where
  "jsPositive v = (case jsNumber v of None \<Rightarrow> False | Some n \<Rightarrow> 0 < n)"

definition mathAbs :: "jsvalue \<Rightarrow> jsvalue" where
  "mathAbs v = (case jsNumber v of None \<Rightarrow> NaN | Some n \<Rightarrow> Num (abs n))"

text \<open>The value \<^verbatim>\<open>v || d\<close>: zero, the empty text and \<^verbatim>\<open>NaN\<close> are falsy.\<close>

definition jsTruthy :: "jsvalue \<Rightarrow> bool" where
  "jsTruthy v = (case v of Num n \<Rightarrow> n \<noteq> 0 | Str t \<Rightarrow> t \<noteq> [] | NaN \<Rightarrow> False)"

definition orDefault :: "jsvalue option \<Rightarrow> jsvalue \<Rightarrow> jsvalue" where
  "orDefault v d = (case v of None \<Rightarrow> d | Some w \<Rightarrow> if jsTruthy w then w else d)"

text \<open>
  \<^verbatim>\<open>isInt()\<close> of express-validator tests the text of the value: leading zeros and a sign
  are allowed, and a number from 10^21 on prints with an exponent.
\<close>

definition isInt :: "jsvalue \<Rightarrow> bool" where
  "isInt v = (case v of Num n \<Rightarrow> abs n < 10 ^ 21 | Str t \<Rightarrow> toNumber t \<noteq> None | NaN \<Rightarrow> False)"

definition isIntMin :: "int \<Rightarrow> jsvalue \<Rightarrow> bool" where
  "isIntMin m v = (isInt v \<and> (case jsNumber v of None \<Rightarrow> False | Some n \<Rightarrow> m \<le> n))"

text \<open>The integer an INTEGER column takes from a bound value, if it takes it.\<close>

definition dbInteger :: "jsvalue \<Rightarrow> int option" where
  "dbInteger v =
     (case jsNumber v of
        None \<Rightarrow> None
      | Some n \<Rightarrow> if minInteger \<le> n \<and> n \<le> maxInteger then Some n else None)"

section \<open>Errors thrown by the store, and HTTP responses\<close>

text \<open>
  Every handler wraps its awaited store calls in \<^verbatim>\<open>try { ... } catch (error)\<close>. An
  awaited call either resolves or throws an error with a name and a message. A call
  throws when a validator of the model or the database rejects its values; which call of
  a request throws for a reason outside the code (the database is unreachable, a
  constraint on another table fails) is an input of the model: a \<open>fault\<close> names the call
  site whose call throws, and the error it throws.
\<close>

datatype sq_error = SqError (ename: string) (emessage: string)

datatype site =
  CategoryFindByPk | ProductCreate | TransactionCreate | ProductFindByPk
  | ProductUpdate | ProductFindAndCountAll

type_synonym fault = "(site \<times> sq_error) option"

definition throws :: "fault \<Rightarrow> site \<Rightarrow> sq_error option" where
  "throws f k = (case f of None \<Rightarrow> None | Some (k', e) \<Rightarrow> if k' = k then Some e else None)"

definition databaseError :: sq_error where
  "databaseError = SqError ''SequelizeDatabaseError'' ''value rejected by the database''"

record adjusted =
  a_id :: nat
  a_name :: string
  a_previousStock :: int
  a_newStock :: jsvalue
  a_adjustment :: jsvalue

record pagination =
  total :: nat
  page :: int
  limit :: int
  pages :: "int option"

datatype body =
    Errors "string list"
  | Error string
  | StockAdjusted adjusted
  | ProductCreated "product option"
  | ProductList "product list" pagination

datatype response = Response (status: nat) (payload: body)

section \<open>Request validation (routes/products.js)\<close>

text \<open>
  \<^verbatim>\<open>trim()\<close> of the validation chains is a sanitizer: it replaces the field of the request
  body by its trimmed value, after \<^verbatim>\<open>notEmpty()\<close> has looked at the untrimmed value.
\<close>

definition isSpace :: "char \<Rightarrow> bool" where
  "isSpace c = (c \<in> set [CHR '' '', CHR 0x09, CHR 0x0A, CHR 0x0B, CHR 0x0C, CHR 0x0D])"

definition trim :: "string \<Rightarrow> string" where
  "trim s = rev (dropWhile isSpace (rev (dropWhile isSpace s)))"

text \<open>
  The body of a stock adjustment request, its path parameter (the decimal text of a
  natural number) and the authenticated user. A missing \<^verbatim>\<open>reason\<close> is the empty string.
\<close>

datatype adjust_request = AdjustRequest
  (params_id: nat) (user_id: nat) (body_quantity: jsvalue) (body_reason: string)
  (body_notes: "string option")

text \<open>
  The list of failed fields that \<^verbatim>\<open>validationResult(req).array()\<close> holds. The custom
  validator \<^verbatim>\<open>value => value !== 0\<close> compares without conversion: only the number 0
  fails it.
\<close>

definition stockAdjustmentValidation :: "adjust_request \<Rightarrow> string list" where
  "stockAdjustmentValidation req =
     (if isInt (body_quantity req) then [] else [''quantity''])
     @ (if body_quantity req \<noteq> Num 0 then [] else [''quantity''])
     @ (if body_reason req \<noteq> [] then [] else [''reason''])"

section \<open>Store operations\<close>

text \<open>The primary key is an INTEGER: the lookup of a key beyond its range is rejected.\<close>

definition Product_findByPk :: "fault \<Rightarrow> store \<Rightarrow> nat \<Rightarrow> sq_error + product option" where
  "Product_findByPk f s i =
     (case throws f ProductFindByPk of
        Some e \<Rightarrow> Inl e
      | None \<Rightarrow>
          if int i > maxInteger then Inl databaseError
          else Inr (find (\<lambda>p. idP p = i) (products s)))"

text \<open>
  \<^verbatim>\<open>product.update({ stockQuantity: v })\<close>: the validator \<^verbatim>\<open>min: 0\<close> of the model, then
  one UPDATE of the row with the instance's id.
\<close>

definition Product_update_stock ::
  "fault \<Rightarrow> store \<Rightarrow> product \<Rightarrow> jsvalue \<Rightarrow> sq_error + store" where
  "Product_update_stock f s p v =
     (case throws f ProductUpdate of
        Some e \<Rightarrow> Inl e
      | None \<Rightarrow>
         (case dbInteger v of
            None \<Rightarrow> Inl databaseError
          | Some n \<Rightarrow>
              if n < 0
              then Inl (SqError ''SequelizeValidationError'' ''Validation min on stockQuantity failed'')
              else Inr (s\<lparr>products :=
                     map (\<lambda>r. if idP r = idP p then r\<lparr>stockQuantity := n\<rparr> else r)
                       (products s)\<rparr>)))"

text \<open>
  \<^verbatim>\<open>Transaction.create\<close>: the model's \<^verbatim>\<open>notZero\<close> validator (\<^verbatim>\<open>value === 0\<close>) runs
  before the INSERT; the INSERT is rejected when the quantity or the new stock is no
  integer of the INTEGER range, or the reason or the notes are not taken by their
  columns; the row gets the next value of the sequence. The previous stock was read from
  an INTEGER column or is 0.
\<close>

definition newMovement ::
  "store \<Rightarrow> nat \<Rightarrow> nat \<Rightarrow> transaction_type \<Rightarrow> int \<Rightarrow> int \<Rightarrow> int \<Rightarrow> string
     \<Rightarrow> string option \<Rightarrow> transaction" where
  "newMovement s pid uid ty q prev new rsn nts =
     \<lparr>idT = Suc (transactionSeq s), productId = pid, userId = uid, type = ty,
      quantity = q, previousStock = prev, newStock = new, reason = rsn,
      notesT = nts, reference = None\<rparr>"

definition rowRejected :: "jsvalue \<Rightarrow> string \<Rightarrow> string option \<Rightarrow> bool" where
  "rowRejected q rsn nts =
     (q = Num 0 \<or> dbInteger q = None \<or> \<not> stringTaken rsn \<or> \<not> optionalTaken textTaken nts)"

definition Transaction_create ::
  "fault \<Rightarrow> store \<Rightarrow> nat \<Rightarrow> nat \<Rightarrow> transaction_type \<Rightarrow> jsvalue \<Rightarrow> int \<Rightarrow> jsvalue \<Rightarrow> string
     \<Rightarrow> string option \<Rightarrow> sq_error + store" where
  "Transaction_create f s pid uid ty q prev new rsn nts =
     (if q = Num 0
      then Inl (SqError ''SequelizeValidationError'' ''Validation error: Quantity cannot be zero'')
      else case throws f TransactionCreate of
        Some e \<Rightarrow> Inl e
      | None \<Rightarrow>
         (case dbInteger q of
            None \<Rightarrow> Inl databaseError
          | Some m \<Rightarrow>
             (case dbInteger new of
                None \<Rightarrow> Inl databaseError
              | Some n \<Rightarrow>
                  if stringTaken rsn \<and> optionalTaken textTaken nts
                  then Inr (s\<lparr>transactions := transactions s @
                                  [newMovement s pid uid ty m prev n rsn nts],
                             transactionSeq := Suc (transactionSeq s)\<rparr>)
                  else Inl databaseError)))"

section \<open>adjustStock (the products controller)\<close>

definition adjustStock :: "fault \<Rightarrow> store \<Rightarrow> adjust_request \<Rightarrow> response \<times> store" where
  "adjustStock f s req =
     (let errors = stockAdjustmentValidation req in
      if errors \<noteq> [] then (Response 400 (Errors errors), s)
      else
        let quantity = body_quantity req; reason = trim (body_reason req);
            notes = body_notes req in
        case Product_findByPk f s (params_id req) of
          Inl e \<Rightarrow> (Response 500 (Error (emessage e)), s)
        | Inr None \<Rightarrow> (Response 404 (Error ''Product not found''), s)
        | Inr (Some product) \<Rightarrow>
           (let previousStock = stockQuantity product;
                newStock = jsPlus previousStock quantity in
            if jsNegative newStock then (Response 400 (Error ''Insufficient stock''), s)
            else
             (case Product_update_stock f s product newStock of
                Inl e \<Rightarrow> (Response 500 (Error (emessage e)), s)
              | Inr s1 \<Rightarrow>
                 (case Transaction_create f s1 (idP product) (user_id req)
                         (if jsPositive quantity then TypeIn else TypeOut) (mathAbs quantity)
                         previousStock newStock reason notes of
                    Inl e \<Rightarrow> (Response 500 (Error (emessage e)), s1)
                  | Inr s2 \<Rightarrow>
                      (Response 200 (StockAdjusted
                         \<lparr>a_id = idP product, a_name = name product,
                          a_previousStock = previousStock, a_newStock = newStock,
                          a_adjustment = quantity\<rparr>), s2)))))"

section \<open>createProduct (the products controller)\<close>

text \<open>
  The body of a product creation request. A field the request may omit is an option;
  \<open>req_clock\<close> is the decimal text of \<^verbatim>\<open>Date.now()\<close> when the SKU is generated. The
  price and the cost are JSON numbers.
\<close>

record create_request =
  req_user_id :: nat
  req_clock :: string
  req_name :: string
  req_description :: "string option"
  req_sku :: "string option"
  req_barcode :: "string option"
  req_categoryId :: jsvalue
  req_supplierId :: "jsvalue option"
  req_price :: rat
  req_cost :: rat
  req_stockQuantity :: "jsvalue option"
  req_minStockLevel :: "jsvalue option"
  req_maxStockLevel :: "jsvalue option"
  req_unit :: "string option"
  req_location :: "string option"

text \<open>A missing string and the empty string are falsy.\<close>

definition truthy :: "string option \<Rightarrow> string option" where
  "truthy v = (case v of None \<Rightarrow> None | Some k \<Rightarrow> if k \<noteq> [] then Some k else None)"

text \<open>\<^verbatim>\<open>optional().isInt({ min: m })\<close>: only a missing field is skipped.\<close>

definition optionalMin :: "int \<Rightarrow> jsvalue option \<Rightarrow> string \<Rightarrow> string list" where
  "optionalMin m v field = (case v of None \<Rightarrow> [] | Some w \<Rightarrow> if isIntMin m w then [] else [field])"

definition productValidation :: "create_request \<Rightarrow> string list" where
  "productValidation req =
     (if req_name req \<noteq> [] then [] else [''name''])
     @ (if 0 \<le> req_price req then [] else [''price''])
     @ (if 0 \<le> req_cost req then [] else [''cost''])
     @ (if isIntMin 1 (req_categoryId req) then [] else [''categoryId''])
     @ optionalMin 1 (req_supplierId req) ''supplierId''
     @ optionalMin 0 (req_stockQuantity req) ''stockQuantity''
     @ optionalMin 0 (req_minStockLevel req) ''minStockLevel''
     @ optionalMin 0 (req_maxStockLevel req) ''maxStockLevel''"

text \<open>
  \<^verbatim>\<open>generateSKU\<close> of utils/helpers: the first three characters of the category and of the
  product name in upper case, and the last six characters of the decimal text of
  \<^verbatim>\<open>Date.now()\<close>, which the request carries as \<open>req_clock\<close>. Upper case is that of
  the ASCII letters.
\<close>

definition toUpperCase :: "string \<Rightarrow> string" where
  "toUpperCase =
     map (\<lambda>c. case map_of (zip ''abcdefghijklmnopqrstuvwxyz'' ''ABCDEFGHIJKLMNOPQRSTUVWXYZ'') c of
                 None \<Rightarrow> c | Some u \<Rightarrow> u)"

definition generateSKU :: "string \<Rightarrow> string \<Rightarrow> string \<Rightarrow> string" where
  "generateSKU clock categoryName productName =
     (let catPrefix = toUpperCase (take 3 categoryName);
          prodPrefix = toUpperCase (take 3 productName);
          timestamp = drop (length clock - 6) clock
      in catPrefix @ ''-'' @ prodPrefix @ ''-'' @ timestamp)"

definition Category_findByPk :: "fault \<Rightarrow> store \<Rightarrow> jsvalue \<Rightarrow> sq_error + string option" where
  "Category_findByPk f s v =
     (case throws f CategoryFindByPk of
        Some e \<Rightarrow> Inl e
      | None \<Rightarrow>
         (case dbInteger v of
            None \<Rightarrow> Inl databaseError
          | Some i \<Rightarrow> Inr (map_of (categories s) i)))"

text \<open>The values handed to \<^verbatim>\<open>Product.create\<close>.\<close>

record product_values =
  v_name :: string
  v_description :: "string option"
  v_sku :: string
  v_barcode :: "string option"
  v_categoryId :: jsvalue
  v_supplierId :: "jsvalue option"
  v_price :: rat
  v_cost :: rat
  v_stockQuantity :: jsvalue
  v_minStockLevel :: jsvalue
  v_maxStockLevel :: "jsvalue option"
  v_unit :: string
  v_location :: "string option"

definition dbOptionalInteger :: "jsvalue option \<Rightarrow> int option option" where
  "dbOptionalInteger v =
     (case v of None \<Rightarrow> Some None | Some w \<Rightarrow> map_option Some (dbInteger w))"

text \<open>The row the INSERT stores, when the database takes every value.\<close>

definition productRow :: "nat \<Rightarrow> product_values \<Rightarrow> product option" where
  "productRow i v =
     (if stringTaken (v_name v) \<and> optionalTaken textTaken (v_description v)
         \<and> stringTaken (v_sku v) \<and> optionalTaken stringTaken (v_barcode v)
         \<and> stringTaken (v_unit v) \<and> optionalTaken stringTaken (v_location v)
      then
        Option.bind (dbInteger (v_categoryId v)) (\<lambda>catId.
        Option.bind (dbOptionalInteger (v_supplierId v)) (\<lambda>supId.
        Option.bind (dbDecimal (v_price v)) (\<lambda>priceN.
        Option.bind (dbDecimal (v_cost v)) (\<lambda>costN.
        Option.bind (dbInteger (v_stockQuantity v)) (\<lambda>stockN.
        Option.bind (dbInteger (v_minStockLevel v)) (\<lambda>minN.
        Option.bind (dbOptionalInteger (v_maxStockLevel v)) (\<lambda>maxN.
          Some \<lparr>idP = i, name = v_name v, description = v_description v, sku = v_sku v,
                barcode = v_barcode v, categoryId = catId, supplierId = supId,
                price = priceN, cost = costN, stockQuantity = stockN,
                minStockLevel = minN, maxStockLevel = maxN, unit = v_unit v,
                location = v_location v, isActive = True\<rparr>)))))))
      else None)"

text \<open>
  \<^verbatim>\<open>Product.create\<close>: \<^verbatim>\<open>sku\<close> and \<^verbatim>\<open>barcode\<close> are declared unique (a missing barcode
  conflicts with nothing), and \<^verbatim>\<open>Product.belongsTo(Category)\<close> makes \<^verbatim>\<open>categoryId\<close> a
  reference to an existing category; the row gets the next value of the sequence and is
  active. The suppliers and the users are not part of the store: a reference to a missing
  one is a reason from outside.
\<close>

definition Product_create ::
  "fault \<Rightarrow> store \<Rightarrow> product_values \<Rightarrow> sq_error + (product \<times> store)" where
  "Product_create f s v =
     (case throws f ProductCreate of
        Some e \<Rightarrow> Inl e
      | None \<Rightarrow>
         (case productRow (Suc (productSeq s)) v of
            None \<Rightarrow> Inl databaseError
          | Some p \<Rightarrow>
              if sku p \<in> set (map sku (products s))
                 \<or> (barcode p \<noteq> None \<and> barcode p \<in> set (map barcode (products s)))
              then Inl (SqError ''SequelizeUniqueConstraintError'' ''Validation error'')
              else if map_of (categories s) (categoryId p) = None
              then Inl (SqError ''SequelizeForeignKeyConstraintError''
                     ''insert or update on table Products violates a foreign key constraint'')
              else Inr (p, s\<lparr>products := products s @ [p],
                              productSeq := Suc (productSeq s)\<rparr>)))"

text \<open>The \<^verbatim>\<open>catch\<close> block of createProduct.\<close>

definition createFailed :: "sq_error \<Rightarrow> response" where
  "createFailed e =
     (if ename e = ''SequelizeUniqueConstraintError''
      then Response 400 (Error ''SKU or barcode already exists'')
      else Response 500 (Error (emessage e)))"

text \<open>The block \<^verbatim>\<open>// Generate SKU if not provided\<close>.\<close>

definition providedOrGeneratedSKU :: "fault \<Rightarrow> store \<Rightarrow> create_request \<Rightarrow> sq_error + string" where
  "providedOrGeneratedSKU f s req =
     (case truthy (req_sku req) of
        Some k \<Rightarrow> Inr k
      | None \<Rightarrow>
         (case Category_findByPk f s (req_categoryId req) of
            Inl e \<Rightarrow> Inl e
          | Inr category \<Rightarrow>
              Inr (generateSKU (req_clock req)
                     (case truthy category of None \<Rightarrow> ''GEN'' | Some n \<Rightarrow> n)
                     (trim (req_name req)))))"

definition productValues :: "create_request \<Rightarrow> string \<Rightarrow> product_values" where
  "productValues req sku0 =
     \<lparr>v_name = trim (req_name req), v_description = req_description req, v_sku = sku0,
      v_barcode = req_barcode req, v_categoryId = req_categoryId req,
      v_supplierId = req_supplierId req, v_price = req_price req, v_cost = req_cost req,
      v_stockQuantity = orDefault (req_stockQuantity req) (Num 0),
      v_minStockLevel = orDefault (req_minStockLevel req) (Num 10),
      v_maxStockLevel = req_maxStockLevel req,
      v_unit = (case truthy (req_unit req) of None \<Rightarrow> ''piece'' | Some u \<Rightarrow> u),
      v_location = req_location req\<rparr>"

text \<open>The block \<^verbatim>\<open>// Create initial stock transaction if stockQuantity > 0\<close>.\<close>

definition initialStockTransaction ::
  "fault \<Rightarrow> store \<Rightarrow> product \<Rightarrow> create_request \<Rightarrow> sq_error + store" where
  "initialStockTransaction f s product req =
     (case req_stockQuantity req of
        None \<Rightarrow> Inr s
      | Some q \<Rightarrow>
          if jsPositive q
          then Transaction_create f s (idP product) (req_user_id req) TypeIn
                 q 0 q ''Initial stock'' (Some ''Product creation'')
          else Inr s)"

definition createProduct :: "fault \<Rightarrow> store \<Rightarrow> create_request \<Rightarrow> response \<times> store" where
  "createProduct f s req =
     (let errors = productValidation req in
      if errors \<noteq> [] then (Response 400 (Errors errors), s)
      else
        case providedOrGeneratedSKU f s req of
          Inl e \<Rightarrow> (createFailed e, s)
        | Inr sku0 \<Rightarrow>
           (case Product_create f s (productValues req sku0) of
              Inl e \<Rightarrow> (createFailed e, s)
            | Inr (product, s1) \<Rightarrow>
               (case initialStockTransaction f s1 product req of
                  Inl e \<Rightarrow> (createFailed e, s1)
                | Inr s2 \<Rightarrow>
                   (case Product_findByPk f s2 (idP product) of
                      Inl e \<Rightarrow> (createFailed e, s2)
                    | Inr createdProduct \<Rightarrow>
                        (Response 201 (ProductCreated createdProduct), s2)))))"

section \<open>Sequences of requests\<close>

datatype call = CreateProduct fault create_request | AdjustStock fault adjust_request

fun serve :: "store \<Rightarrow> call \<Rightarrow> response \<times> store" where
  "serve s (CreateProduct f req) = createProduct f s req"
| "serve s (AdjustStock f req) = adjustStock f s req"

definition run :: "store \<Rightarrow> call list \<Rightarrow> store" where
  "run = foldl (\<lambda>s c. snd (serve s c))"

text \<open>The store after migration: no product and no transaction yet.\<close>

definition emptyStore :: "(int \<times> string) list \<Rightarrow> store" where
  "emptyStore cats =
     \<lparr>products = [], transactions = [], categories = cats, productSeq = 0,
      transactionSeq = 0\<rparr>"

section \<open>getAllProducts (the products controller)\<close>

text \<open>
  The query string of the product list. \<^verbatim>\<open>page\<close>, \<^verbatim>\<open>limit\<close> and \<^verbatim>\<open>category\<close>
  are decimal integers when present. The operator \<^verbatim>\<open>ILIKE\<close> of the database is a
  parameter: it takes the pattern and the column value.
\<close>

record list_query =
  q_page :: "int option"
  q_limit :: "int option"
  q_search :: "string option"
  q_category :: "int option"
  q_lowStock :: "string option"

text \<open>\<^verbatim>\<open>paginate(page = 1, limit = 10)\<close> of utils/helpers: the limit and the offset.\<close>

definition paginate :: "int option \<Rightarrow> int option \<Rightarrow> int \<times> int" where
  "paginate pageArg limitArg =
     (let page0 = (case pageArg of None \<Rightarrow> 1 | Some n \<Rightarrow> n);
          limit0 = (case limitArg of None \<Rightarrow> 10 | Some n \<Rightarrow> n);
          offset = (page0 - 1) * limit0
      in (limit0, offset))"

definition whereClause :: "(string \<Rightarrow> string \<Rightarrow> bool) \<Rightarrow> list_query \<Rightarrow> product \<Rightarrow> bool" where
  "whereClause iLike q p =
     (isActive p
      \<and> (case truthy (q_search q) of
            None \<Rightarrow> True
          | Some search \<Rightarrow>
              iLike (''%'' @ search @ ''%'') (name p)
              \<or> iLike (''%'' @ search @ ''%'') (sku p)
              \<or> (case barcode p of None \<Rightarrow> False
                  | Some b \<Rightarrow> iLike (''%'' @ search @ ''%'') b))
      \<and> (case q_category q of None \<Rightarrow> True | Some c \<Rightarrow> categoryId p = c)
      \<and> (if q_lowStock q = Some ''true'' then stockQuantity p < minStockLevel p else True))"

text \<open>
  \<^verbatim>\<open>Product.findAndCountAll\<close>: the number of rows the condition selects, and the page of
  them cut by limit and offset, newest first. The database rejects a negative limit or
  offset.
\<close>

definition Product_findAndCountAll ::
  "fault \<Rightarrow> store \<Rightarrow> (product \<Rightarrow> bool) \<Rightarrow> int \<Rightarrow> int \<Rightarrow> sq_error + (nat \<times> product list)" where
  "Product_findAndCountAll f s cond lmt ofs =
     (case throws f ProductFindAndCountAll of
        Some e \<Rightarrow> Inl e
      | None \<Rightarrow>
          if lmt < 0 \<or> ofs < 0
          then Inl (SqError ''SequelizeDatabaseError'' ''LIMIT and OFFSET must not be negative'')
          else (let selected = filter cond (rev (products s))
                in Inr (length selected, take (nat lmt) (drop (nat ofs) selected))))"

definition getAllProducts ::
  "(string \<Rightarrow> string \<Rightarrow> bool) \<Rightarrow> fault \<Rightarrow> store \<Rightarrow> list_query \<Rightarrow> response" where
  "getAllProducts iLike f s q =
     (case paginate (q_page q) (q_limit q) of
        (pageLimit, offset) \<Rightarrow>
          (case Product_findAndCountAll f s (whereClause iLike q) pageLimit offset of
             Inl e \<Rightarrow> Response 500 (Error (emessage e))
           | Inr (count, rows) \<Rightarrow>
               Response 200 (ProductList rows
                 \<lparr>total = count,
                  page = (case q_page q of None \<Rightarrow> 1 | Some n \<Rightarrow> if n \<noteq> 0 then n else 1),
                  limit = pageLimit,
                  pages = (if pageLimit = 0 then None
                           else Some (- ((- int count) div pageLimit)))\<rparr>)))"

section \<open>The dashboard (frontend/src/js/app.js)\<close>

text \<open>
  The test \<^verbatim>\<open>p.stockQuantity <= p.minStockLevel\<close> that the page uses for the low-stock
  count, the low-stock filter and the row colours.
\<close>

definition isLowStock :: "product \<Rightarrow> bool" where
  "isLowStock p = (stockQuantity p \<le> minStockLevel p)"

definition outOfStock :: "product \<Rightarrow> bool" where
  "outOfStock p = (stockQuantity p = 0)"

text \<open>
  \<^verbatim>\<open>updateDashboardStats\<close> reads the global arrays \<^verbatim>\<open>products\<close> and \<^verbatim>\<open>categories\<close>.
  JavaScript multiplies and adds in floating point, and the price arrives as the text of
  a DECIMAL: the product \<open>jsMul\<close>, the sum \<open>jsAdd\<close> and the number \<open>jsZero\<close> are parameters,
  and \<^verbatim>\<open>reduce\<close> is the left fold.
\<close>

record 'n dashboard =
  totalProducts :: nat
  lowStockItems :: nat
  totalCategories :: nat
  totalValue :: 'n

definition updateDashboardStats ::
  "(int \<Rightarrow> rat \<Rightarrow> 'n) \<Rightarrow> ('n \<Rightarrow> 'n \<Rightarrow> 'n) \<Rightarrow> 'n \<Rightarrow> product list \<Rightarrow> 'c list \<Rightarrow> 'n dashboard" where
  "updateDashboardStats jsMul jsAdd jsZero ps cs =
     \<lparr>totalProducts = length ps,
      lowStockItems = length (filter (\<lambda>p. stockQuantity p \<le> minStockLevel p) ps),
      totalCategories = length cs,
      totalValue = foldl (\<lambda>sum p. jsAdd sum (jsMul (stockQuantity p) (price p))) jsZero ps\<rparr>"

text \<open>
  The summary as the specification words it: the count of low-stock items, the valuation
  summed over the active products, and the count of active products.
\<close>

definition summarize_spec ::
  "(int \<Rightarrow> rat \<Rightarrow> 'n) \<Rightarrow> ('n \<Rightarrow> 'n \<Rightarrow> 'n) \<Rightarrow> 'n \<Rightarrow> product list \<Rightarrow> nat \<times> 'n \<times> nat" where
  "summarize_spec jsMul jsAdd jsZero ps =
     (length (filter isLowStock ps),
      foldl (\<lambda>sum p. jsAdd sum (jsMul (stockQuantity p) (price p))) jsZero (filter isActive ps),
      length (filter isActive ps))"

definition summarize ::
  "(int \<Rightarrow> rat \<Rightarrow> 'n) \<Rightarrow> ('n \<Rightarrow> 'n \<Rightarrow> 'n) \<Rightarrow> 'n \<Rightarrow> product list \<Rightarrow> nat \<times> 'n \<times> nat" where
  "summarize jsMul jsAdd jsZero ps =
     (let d = updateDashboardStats jsMul jsAdd jsZero ps ([] :: unit list)
      in (lowStockItems d, totalValue d, totalProducts d))"

section \<open>Concurrent stock adjustments\<close>

text \<open>
  A handler runs until its next \<^verbatim>\<open>await\<close>; each awaited store call is one statement of
  the database. Between two statements of one request the statements of another request
  can run. \<open>advance\<close> is one such step of an adjustStock request: the lookup with the
  checks that follow it, the UPDATE, or the INSERT with the response.
\<close>

datatype progress = Entered | Loaded product | Written product | Responded response

fun advance :: "fault \<Rightarrow> adjust_request \<Rightarrow> store \<times> progress \<Rightarrow> store \<times> progress" where
  "advance f req (s, Entered) =
     (let errors = stockAdjustmentValidation req in
      if errors \<noteq> [] then (s, Responded (Response 400 (Errors errors)))
      else
        case Product_findByPk f s (params_id req) of
          Inl e \<Rightarrow> (s, Responded (Response 500 (Error (emessage e))))
        | Inr None \<Rightarrow> (s, Responded (Response 404 (Error ''Product not found'')))
        | Inr (Some product) \<Rightarrow>
            if jsNegative (jsPlus (stockQuantity product) (body_quantity req))
            then (s, Responded (Response 400 (Error ''Insufficient stock'')))
            else (s, Loaded product))"
| "advance f req (s, Loaded product) =
     (case Product_update_stock f s product
             (jsPlus (stockQuantity product) (body_quantity req)) of
        Inl e \<Rightarrow> (s, Responded (Response 500 (Error (emessage e))))
      | Inr s1 \<Rightarrow> (s1, Written product))"
| "advance f req (s, Written product) =
     (let quantity = body_quantity req; previousStock = stockQuantity product;
          newStock = jsPlus previousStock quantity in
      case Transaction_create f s (idP product) (user_id req)
             (if jsPositive quantity then TypeIn else TypeOut) (mathAbs quantity)
             previousStock newStock (trim (body_reason req)) (body_notes req) of
        Inl e \<Rightarrow> (s, Responded (Response 500 (Error (emessage e))))
      | Inr s2 \<Rightarrow>
          (s2, Responded (Response 200 (StockAdjusted
             \<lparr>a_id = idP product, a_name = name product,
              a_previousStock = previousStock, a_newStock = newStock,
              a_adjustment = quantity\<rparr>))))"
| "advance f req (s, Responded r) = (s, Responded r)"

text \<open>
  Two requests in flight, each with its fault; the schedule says whose statement the
  database runs next.
\<close>

datatype turn = First | Second

fun concurrently ::
  "turn list \<Rightarrow> fault \<times> adjust_request \<Rightarrow> fault \<times> adjust_request
     \<Rightarrow> store \<times> progress \<times> progress \<Rightarrow> store \<times> progress \<times> progress" where
  "concurrently [] a b st = st"
| "concurrently (First # ts) a b (s, pa, pb) =
     (case advance (fst a) (snd a) (s, pa) of
        (s', pa') \<Rightarrow> concurrently ts a b (s', pa', pb))"
| "concurrently (Second # ts) a b (s, pa, pb) =
     (case advance (fst b) (snd b) (s, pb) of
        (s', pb') \<Rightarrow> concurrently ts a b (s', pa, pb'))"

section \<open>Properties of the ledger\<close>

definition stockOf :: "store \<Rightarrow> nat \<Rightarrow> int option" where
  "stockOf s i = map_option stockQuantity (find (\<lambda>p. idP p = i) (products s))"

definition movementsOf :: "store \<Rightarrow> nat \<Rightarrow> transaction list" where
  "movementsOf s i = filter (\<lambda>t. productId t = i) (transactions s)"

definition latestMovement :: "store \<Rightarrow> nat \<Rightarrow> transaction option" where
  "latestMovement s i = (case movementsOf s i of [] \<Rightarrow> None | t # ts \<Rightarrow> Some (last (t # ts)))"



text \<open>
  A stock adjustment whose INSERT of the movement throws: from outside, or because the
  row of its quantity, reason and notes is rejected.
\<close>

fun movementInsertThrows :: "call \<Rightarrow> bool" where
  "movementInsertThrows (AdjustStock f req) =
     (throws f TransactionCreate \<noteq> None
      \<or> rowRejected (mathAbs (body_quantity req)) (trim (body_reason req)) (body_notes req))"
| "movementInsertThrows (CreateProduct f req) = False"


text \<open>
  A store is consistent when the primary keys of its products are distinct and issued
  by the sequence, every movement belongs to an issued key, and the stock of every
  product that has movements is the new stock of its latest movement.
\<close>

definition consistent :: "store \<Rightarrow> bool" where
  "consistent s =
     (distinct (map idP (products s))
      \<and> (\<forall>p \<in> set (products s). idP p \<le> productSeq s)
      \<and> (\<forall>t \<in> set (transactions s). productId t \<le> productSeq s)
      \<and> (\<forall>p \<in> set (products s). \<forall>t. latestMovement s (idP p) = Some t
             \<longrightarrow> newStock t = stockQuantity p))"

text \<open>
  What the ledger requires of a stored movement: its kind is \<^verbatim>\<open>in\<close> or \<^verbatim>\<open>out\<close>, the
  new stock is the previous stock plus, respectively minus, the quantity, the new stock
  is not negative and the quantity is not zero.
\<close>

definition movementOk :: "transaction \<Rightarrow> bool" where
  "movementOk t =
     ((case type t of
         TypeIn \<Rightarrow> newStock t = previousStock t + quantity t
       | TypeOut \<Rightarrow> newStock t = previousStock t - quantity t
       | TypeAdjustment \<Rightarrow> False)
      \<and> 0 \<le> newStock t \<and> quantity t \<noteq> 0)"

definition stockWritten :: "store \<Rightarrow> nat \<Rightarrow> int \<Rightarrow> product list" where
  "stockWritten s i n =
     map (\<lambda>r. if idP r = i then r\<lparr>stockQuantity := n\<rparr> else r) (products s)"

section \<open>Sample data\<close>

definition widget :: product where
  "widget =
     \<lparr>idP = 1, name = ''Widget'', description = None, sku = ''HAR-WID-000001'',
      barcode = None, categoryId = 1, supplierId = None, price = 3, cost = 2,
      stockQuantity = 10, minStockLevel = 5, maxStockLevel = None, unit = ''piece'',
      location = None, isActive = True\<rparr>"

definition shop :: store where
  "shop =
     \<lparr>products = [widget], transactions = [], categories = [(1, ''Hardware'')],
      productSeq = 1, transactionSeq = 0\<rparr>"



definition sale :: adjust_request where
  "sale = AdjustRequest 1 7 (Num (- 7)) ''sale'' None"

definition oversell :: adjust_request where
  "oversell = AdjustRequest 1 7 (Num (- 5)) ''sale'' None"

definition receipt :: adjust_request where
  "receipt = AdjustRequest 1 7 (Num 20) ''receipt'' (Some ''PO 1187'')"

definition textReceipt :: adjust_request where
  "textReceipt = AdjustRequest 1 7 (Str ''5'') ''receipt'' None"

definition textOversell :: adjust_request where
  "textOversell = AdjustRequest 1 7 (Str ''-15'') ''sale'' None"

definition textRecount :: adjust_request where
  "textRecount = AdjustRequest 1 7 (Str ''0'') ''recount'' None"

definition connectionLost :: fault where
  "connectionLost =
     Some (TransactionCreate, SqError ''SequelizeConnectionError'' ''Connection terminated'')"



definition afterSale :: store where
  "afterSale =
     shop\<lparr>products := [widget\<lparr>stockQuantity := 3\<rparr>],
          transactions := [\<lparr>idT = 1, productId = 1, userId = 7, type = TypeOut, quantity = 7,
             previousStock = 10, newStock = 3, reason = ''sale'', notesT = None,
             reference = None\<rparr>],
          transactionSeq := 1\<rparr>"

definition return3 :: adjust_request where
  "return3 = AdjustRequest 1 8 (Num 3) ''customer return'' None"

definition interleaved :: "turn list" where
  "interleaved = [First, Second, First, First, Second, Second]"

definition oneAfterTheOther :: "turn list" where
  "oneAfterTheOther = [First, First, First, Second, Second, Second]"

definition atMinimum :: product where
  "atMinimum = widget\<lparr>stockQuantity := 5\<rparr>"

definition lowStockQuery :: list_query where
  "lowStockQuery =
     \<lparr>q_page = None, q_limit = None, q_search = None, q_category = None,
      q_lowStock = Some ''true''\<rparr>"

definition discontinued :: product where
  "discontinued = widget\<lparr>isActive := False\<rparr>"

definition exactMul :: "int \<Rightarrow> rat \<Rightarrow> rat" where
  "exactMul q p = of_int q * p"

section \<open>The handlers, case by case\<close>

lemma adjustStock_cases:
  assumes "adjustStock f s req = (r, s')"
  shows "(status r \<noteq> 200 \<and> s' = s)
   \<or> (\<exists>P n. find (\<lambda>p. idP p = params_id req) (products s) = Some P
         \<and> dbInteger (jsPlus (stockQuantity P) (body_quantity req)) = Some n \<and> 0 \<le> n
         \<and> ((status r = 500 \<and> movementInsertThrows (AdjustStock f req)
              \<and> s' = s\<lparr>products := stockWritten s (idP P) n\<rparr>)
            \<or> (r = Response 200 (StockAdjusted
                      \<lparr>a_id = idP P, a_name = name P, a_previousStock = stockQuantity P,
                       a_newStock = jsPlus (stockQuantity P) (body_quantity req),
                       a_adjustment = body_quantity req\<rparr>)
                \<and> \<not> movementInsertThrows (AdjustStock f req)
                \<and> (\<exists>m. dbInteger (mathAbs (body_quantity req)) = Some m
                      \<and> s' = s\<lparr>products := stockWritten s (idP P) n,
                               transactions := transactions s @
                                 [newMovement s (idP P) (user_id req)
                                    (if jsPositive (body_quantity req) then TypeIn else TypeOut)
                                    m (stockQuantity P) n
                                    (trim (body_reason req)) (body_notes req)],
                               transactionSeq := Suc (transactionSeq s)\<rparr>))))"
  using assms
  by (auto simp add: adjustStock_def Let_def Product_update_stock_def Transaction_create_def
        Product_findByPk_def stockWritten_def rowRejected_def newMovement_def
      split: option.splits sum.splits if_splits)






section \<open>The ledger along a run\<close>




lemma find_member: "find Q ps = Some P \<Longrightarrow> P \<in> set ps \<and> Q P"
  by (induction ps) (auto split: if_splits)


lemma find_written:
  "find (\<lambda>p. idP p = i) (map (\<lambda>r. if idP r = j then r\<lparr>stockQuantity := n\<rparr> else r) ps) =
     (if i = j then map_option (\<lambda>p. p\<lparr>stockQuantity := n\<rparr>) (find (\<lambda>p. idP p = i) ps)
      else find (\<lambda>p. idP p = i) ps)"
  by (induction ps) auto

lemma stockOf_written:
  "products s' = stockWritten s j n \<Longrightarrow>
     stockOf s' i = (if i = j then map_option (\<lambda>_. n) (stockOf s i) else stockOf s i)"
  by (simp add: stockOf_def stockWritten_def find_written option.map_comp comp_def)


















lemma consistent_emptyStore: "consistent (emptyStore cats)"
  by (simp add: consistent_def emptyStore_def)

section \<open>Sequential requests, the dashboard and the listing\<close>

lemma advance_thrice:
  "advance f req (advance f req (advance f req (s, Entered))) =
     (snd (adjustStock f s req), Responded (fst (adjustStock f s req)))"
  by (auto simp add: adjustStock_def Let_def split: sum.splits option.splits)

lemma concurrently_oneAfterTheOther:
  "concurrently oneAfterTheOther (fa, a) (fb, b) (s, Entered, Entered) =
     (snd (adjustStock fb (snd (adjustStock fa s a)) b),
      Responded (fst (adjustStock fa s a)),
      Responded (fst (adjustStock fb (snd (adjustStock fa s a)) b)))"
proof -
  have "concurrently oneAfterTheOther (fa, a) (fb, b) (s, Entered, Entered) =
     (case advance fa a (advance fa a (advance fa a (s, Entered))) of
        (s1, pa) \<Rightarrow>
          (case advance fb b (advance fb b (advance fb b (s1, Entered))) of
             (s2, pb) \<Rightarrow> (s2, pa, pb)))"
    by (simp add: oneAfterTheOther_def del: advance.simps split: prod.splits)
  then show ?thesis by (simp add: advance_thrice del: advance.simps)
qed

lemma find_after_write:
  assumes "find (\<lambda>p. idP p = i) (products s) = Some P" and "idP P = i"
    and "products s1 = stockWritten s i n"
  shows "find (\<lambda>p. idP p = i) (products s1) = Some (P\<lparr>stockQuantity := n\<rparr>)"
  using assms by (simp add: stockWritten_def find_written)

text \<open>What an adjustStock request answered 200 with a number as quantity has written.\<close>

lemma adjustStock_number_200:
  assumes run: "adjustStock f s req = (r, s')" and ok: "status r = 200"
    and P: "find (\<lambda>p. idP p = params_id req) (products s) = Some P"
    and q: "body_quantity req = Num q"
  shows "products s' = stockWritten s (idP P) (stockQuantity P + q)
     \<and> (\<exists>m. transactions s' = transactions s @ [m] \<and> productId m = idP P
           \<and> previousStock m = stockQuantity P \<and> newStock m = stockQuantity P + q)"
  using adjustStock_cases[OF run] ok P q
  by (auto simp add: jsPlus_def dbInteger_def jsNumber_def newMovement_def split: if_splits)

lemma isLowStock_fun: "isLowStock = (\<lambda>p. stockQuantity p \<le> minStockLevel p)"
  by (simp add: isLowStock_def fun_eq_iff)

lemma summarize_unfold:
  "summarize jsMul jsAdd jsZero ps =
     (length (filter (\<lambda>p. stockQuantity p \<le> minStockLevel p) ps),
      foldl (\<lambda>sum p. jsAdd sum (jsMul (stockQuantity p) (price p))) jsZero ps,
      length ps)"
  by (simp add: summarize_def updateDashboardStats_def)

lemma summarize_all_active:
  assumes "\<forall>p \<in> set ps. isActive p"
  shows "summarize jsMul jsAdd jsZero ps = summarize_spec jsMul jsAdd jsZero ps"
proof -
  from assms have "filter isActive ps = ps" by (simp add: filter_id_conv)
  then show ?thesis
    by (simp add: summarize_unfold summarize_spec_def isLowStock_fun)
qed

lemma summarize_as_if_active:
  "summarize jsMul jsAdd jsZero ps =
     summarize_spec jsMul jsAdd jsZero (map (\<lambda>p. p\<lparr>isActive := True\<rparr>) ps)"
proof -
  let ?on = "\<lambda>p. p\<lparr>isActive := True\<rparr>"
  have low: "length (filter isLowStock (map ?on ps))
          = length (filter (\<lambda>p. stockQuantity p \<le> minStockLevel p) ps)"
    by (induction ps) (simp_all add: isLowStock_def)
  have act: "filter isActive (map ?on ps) = map ?on ps"
    by (induction ps) simp_all
  have val: "foldl (\<lambda>sum p. jsAdd sum (jsMul (stockQuantity p) (price p))) z (map ?on ps)
          = foldl (\<lambda>sum p. jsAdd sum (jsMul (stockQuantity p) (price p))) z ps" for z
    by (induction ps arbitrary: z) simp_all
  show ?thesis
    unfolding summarize_unfold summarize_spec_def low act val by simp
qed

lemma findAndCountAll_rows:
  "Product_findAndCountAll f s cond lmt ofs = Inr (n, rows) \<Longrightarrow> \<forall>p \<in> set rows. cond p"
  by (auto simp add: Product_findAndCountAll_def Let_def split: option.splits if_splits
      dest!: in_set_takeD in_set_dropD)

lemma listing_rows_active:
  assumes "getAllProducts iLike f s q = Response 200 (ProductList rows pg)"
  shows "\<forall>p \<in> set rows. isActive p"
proof -
  obtain pageLimit offset where pg: "paginate (q_page q) (q_limit q) = (pageLimit, offset)"
    by (cases "paginate (q_page q) (q_limit q)")
  from assms pg obtain n where
    "Product_findAndCountAll f s (whereClause iLike q) pageLimit offset = Inr (n, rows)"
    by (auto simp add: getAllProducts_def split: sum.splits prod.splits)
  then have "\<forall>p \<in> set rows. whereClause iLike q p" by (rule findAndCountAll_rows)
  then show ?thesis by (simp add: whereClause_def)
qed

section \<open>The sample requests, evaluated\<close>

lemma decimal_10: "decimal 10 = ''10''"
  by (simp add: decimal_def natText.simps)

lemma texts_denote:
  "toNumber ''5'' = Some 5" "toNumber ''0'' = Some 0" "toNumber ''-15'' = Some (- 15)"
  "toNumber ''105'' = Some 105" "toNumber ''100'' = Some 100" "toNumber ''10-15'' = None"
  by (simp_all add: toNumber_def unsignedNumber_def digitOf_def)

lemmas js_eval = jsNumber_def jsPlus_def jsNegative_def jsPositive_def mathAbs_def jsTruthy_def
  orDefault_def isInt_def isIntMin_def dbInteger_def maxInteger_def minInteger_def
  stringTaken_def textTaken_def optionalTaken_def decimal_10 texts_denote

lemmas adjust_eval = adjustStock_def stockAdjustmentValidation_def Product_findByPk_def
  Product_update_stock_def Transaction_create_def newMovement_def throws_def trim_def
  isSpace_def Let_def shop_def widget_def js_eval

lemma sale_shop:
  "adjustStock None shop sale =
     (Response 200 (StockAdjusted \<lparr>a_id = 1, a_name = ''Widget'', a_previousStock = 10,
        a_newStock = Num 3, a_adjustment = Num (- 7)\<rparr>),
      shop\<lparr>products := [widget\<lparr>stockQuantity := 3\<rparr>],
           transactions := [\<lparr>idT = 1, productId = 1, userId = 7, type = TypeOut, quantity = 7,
              previousStock = 10, newStock = 3, reason = ''sale'', notesT = None,
              reference = None\<rparr>],
           transactionSeq := 1\<rparr>)"
  by (simp add: adjust_eval sale_def)

lemma textReceipt_shop:
  "adjustStock None shop textReceipt =
     (Response 200 (StockAdjusted \<lparr>a_id = 1, a_name = ''Widget'', a_previousStock = 10,
        a_newStock = Str ''105'', a_adjustment = Str ''5''\<rparr>),
      shop\<lparr>products := [widget\<lparr>stockQuantity := 105\<rparr>],
           transactions := [\<lparr>idT = 1, productId = 1, userId = 7, type = TypeIn, quantity = 5,
              previousStock = 10, newStock = 105, reason = ''receipt'', notesT = None,
              reference = None\<rparr>],
           transactionSeq := 1\<rparr>)"
  by (simp add: adjust_eval textReceipt_def)

lemma textOversell_shop:
  "adjustStock None shop textOversell =
     (Response 500 (Error ''value rejected by the database''), shop)"
  by (simp add: adjust_eval textOversell_def databaseError_def)

lemma textRecount_shop:
  "adjustStock None shop textRecount =
     (Response 500 (Error ''Validation error: Quantity cannot be zero''),
      shop\<lparr>products := [widget\<lparr>stockQuantity := 100\<rparr>]\<rparr>)"
  by (simp add: adjust_eval textRecount_def)

lemma receipt_lost_shop:
  "adjustStock connectionLost shop receipt =
     (Response 500 (Error ''Connection terminated''),
      shop\<lparr>products := [widget\<lparr>stockQuantity := 30\<rparr>]\<rparr>)"
  by (simp add: adjust_eval receipt_def connectionLost_def)

lemmas after_eval = adjust_eval afterSale_def


lemma oversell_afterSale:
  "adjustStock None afterSale oversell = (Response 400 (Error ''Insufficient stock''), afterSale)"
  by (simp add: after_eval oversell_def)











lemmas concurrent_eval = oversell_def return3_def stockOf_def stockAdjustmentValidation_def
  Product_findByPk_def Product_update_stock_def Transaction_create_def newMovement_def
  throws_def trim_def isSpace_def Let_def shop_def widget_def js_eval

lemma sale_then_return:
  "case concurrently oneAfterTheOther (None, oversell) (None, return3) (shop, Entered, Entered) of
     (s', pa, pb) \<Rightarrow>
       stockOf s' 1 = Some 8
       \<and> map (\<lambda>m. (previousStock m, newStock m)) (transactions s') = [(10, 5), (5, 8)]"
  by (simp add: oneAfterTheOther_def concurrent_eval)

lemma return_then_sale:
  "case concurrently oneAfterTheOther (None, return3) (None, oversell) (shop, Entered, Entered) of
     (s', pa, pb) \<Rightarrow>
       stockOf s' 1 = Some 8
       \<and> map (\<lambda>m. (previousStock m, newStock m)) (transactions s') = [(10, 13), (13, 8)]"
  by (simp add: oneAfterTheOther_def concurrent_eval)

lemma serial_statuses:
  "status (fst (adjustStock None shop oversell)) = 200"
  "status (fst (adjustStock None (snd (adjustStock None shop oversell)) return3)) = 200"
  "status (fst (adjustStock None shop return3)) = 200"
  "status (fst (adjustStock None (snd (adjustStock None shop return3)) oversell)) = 200"
  by (simp_all add: adjustStock_def concurrent_eval)

section \<open>The claims\<close>




text \<open>
  C2 is broken by the code for a quantity sent as JSON text. The validation chain tests
  the text with \<^verbatim>\<open>isInt()\<close> and does not convert it, so \<^verbatim>\<open>previousStock + quantity\<close>
  appends: on the sample stock 10 the quantity \<^verbatim>\<open>"5"\<close> is answered 200, the stock
  becomes 105 and the stored movement is \<^verbatim>\<open>in\<close>, quantity 5, from 10 to 105, which is
  not previous stock plus quantity. The number 5 stores the movement from 10 to 15.
\<close>

theorem text_quantity_breaks_movement:
  "stockAdjustmentValidation textReceipt = []
   \<and> body_quantity textReceipt = Str ''5''
   \<and> stockOf shop 1 = Some 10
   \<and> status (fst (adjustStock None shop textReceipt)) = 200
   \<and> stockOf (snd (adjustStock None shop textReceipt)) 1 = Some 105
   \<and> map (\<lambda>t. (type t, quantity t, previousStock t, newStock t))
         (transactions (snd (adjustStock None shop textReceipt))) = [(TypeIn, 5, 10, 105)]
   \<and> \<not> list_all movementOk (transactions (snd (adjustStock None shop textReceipt)))
   \<and> map (\<lambda>t. (type t, quantity t, previousStock t, newStock t))
         (transactions (snd (adjustStock None shop (AdjustRequest 1 7 (Num 5) ''receipt'' None))))
       = [(TypeIn, 5, 10, 15)]"
  by (simp add: textReceipt_shop)
     (simp add: textReceipt_def stockOf_def movementOk_def adjust_eval)

text \<open>
  C3 is broken by the code for a quantity sent as JSON text. On the sample stock 10 the
  quantity \<^verbatim>\<open>"-15"\<close> passes validation and denotes -15, so the stock would fall below
  zero; but \<^verbatim>\<open>previousStock + quantity\<close> is the text \<^verbatim>\<open>10-15\<close>, the test
  \<^verbatim>\<open>newStock < 0\<close> is false, the UPDATE is rejected by the database, and the answer is
  500 instead of 400 \<^verbatim>\<open>Insufficient stock\<close>. The store is left as it was. The number -15
  is answered 400 \<^verbatim>\<open>Insufficient stock\<close>.
\<close>

theorem text_oversell_not_insufficient:
  "stockAdjustmentValidation textOversell = []
   \<and> body_quantity textOversell = Str ''-15''
   \<and> jsNumber (body_quantity textOversell) = Some (- 15)
   \<and> stockOf shop 1 = Some 10
   \<and> jsPlus 10 (body_quantity textOversell) = Str ''10-15''
   \<and> \<not> jsNegative (Str ''10-15'')
   \<and> status (fst (adjustStock None shop textOversell)) = 500
   \<and> snd (adjustStock None shop textOversell) = shop
   \<and> fst (adjustStock None shop (AdjustRequest 1 7 (Num (- 15)) ''sale'' None))
       = Response 400 (Error ''Insufficient stock'')"
  by (simp add: textOversell_shop)
     (simp add: textOversell_def stockOf_def adjust_eval)

text \<open>
  C4 is broken by the code for a quantity sent as JSON text. The validator
  \<^verbatim>\<open>value !== 0\<close> compares without conversion, so the quantity \<^verbatim>\<open>"0"\<close> passes
  validation. On the sample stock 10 the stock is then written as 100 (the text
  \<^verbatim>\<open>100\<close>), the \<^verbatim>\<open>notZero\<close> validator of the movement throws, and the answer is 500
  with the stock changed and no movement. The number 0 is answered 400 with the
  validation error of \<^verbatim>\<open>quantity\<close> and leaves the store as it was.
\<close>

theorem text_zero_passes_validation:
  "stockAdjustmentValidation textRecount = []
   \<and> body_quantity textRecount = Str ''0''
   \<and> jsNumber (body_quantity textRecount) = Some 0
   \<and> stockOf shop 1 = Some 10
   \<and> status (fst (adjustStock None shop textRecount)) = 500
   \<and> stockOf (snd (adjustStock None shop textRecount)) 1 = Some 100
   \<and> transactions (snd (adjustStock None shop textRecount)) = []
   \<and> adjustStock None shop (AdjustRequest 1 7 (Num 0) ''recount'' None)
       = (Response 400 (Errors [''quantity'']), shop)"
  by (simp add: textRecount_shop)
     (simp add: textRecount_def stockOf_def adjust_eval)

text \<open>
  C5 fails on the code: the two writes are two awaited calls with no transaction around
  them. On the sample store the receipt of 20 whose INSERT throws is answered 500, the
  stock is 30 instead of 10, and no movement was added.
\<close>

theorem update_without_movement_counterexample:
  "status (fst (adjustStock connectionLost shop receipt)) = 500
   \<and> stockOf shop 1 = Some 10
   \<and> stockOf (snd (adjustStock connectionLost shop receipt)) 1 = Some 30
   \<and> transactions (snd (adjustStock connectionLost shop receipt)) = transactions shop"
  by (simp add: receipt_lost_shop) (simp add: stockOf_def shop_def widget_def)

text \<open>
  C5, as amended. Each adjustStock request either writes nothing and is not answered 200;
  or writes the new stock and appends exactly one movement, answered 200; or, when the
  INSERT of the movement throws, is answered 500 with the new stock written and no
  movement added. A movement is never added without the stock update.
\<close>

theorem adjustStock_writes:
  "adjustStock f s req = (r, s') \<Longrightarrow>
     (status r \<noteq> 200 \<and> s' = s)
     \<or> (\<exists>P n. find (\<lambda>p. idP p = params_id req) (products s) = Some P
           \<and> dbInteger (jsPlus (stockQuantity P) (body_quantity req)) = Some n
           \<and> products s' = stockWritten s (idP P) n
           \<and> ((status r = 200
                \<and> (\<exists>m. transactions s' = transactions s @ [m] \<and> productId m = idP P
                      \<and> previousStock m = stockQuantity P \<and> newStock m = n))
              \<or> (status r = 500 \<and> movementInsertThrows (AdjustStock f req)
                  \<and> transactions s' = transactions s)))"
  by (drule adjustStock_cases) (auto simp add: newMovement_def)

theorem adjustStock_writes_witness:
  "adjustStock None shop sale =
     (Response 200 (StockAdjusted \<lparr>a_id = 1, a_name = ''Widget'', a_previousStock = 10,
        a_newStock = Num 3, a_adjustment = Num (- 7)\<rparr>), snd (adjustStock None shop sale))
   \<and> find (\<lambda>p. idP p = params_id sale) (products shop) = Some widget
   \<and> dbInteger (jsPlus (stockQuantity widget) (body_quantity sale)) = Some 3
   \<and> products (snd (adjustStock None shop sale)) = stockWritten shop 1 3
   \<and> (\<exists>m. transactions (snd (adjustStock None shop sale)) = transactions shop @ [m]
          \<and> productId m = 1 \<and> previousStock m = 10 \<and> newStock m = 3)"
  using adjustStock_writes[of None shop sale "fst (adjustStock None shop sale)"
          "snd (adjustStock None shop sale)"]
  by (simp add: sale_shop) (simp add: sale_def shop_def widget_def stockWritten_def js_eval)

text \<open>
  C6 fails on the code: nothing serializes the read, the UPDATE and the INSERT of one
  request against those of another. With stock 10, a removal of 5 and a return of 3, let
  both lookups run before either UPDATE: both read 10, the product ends at 13, and the
  two movements say 10 to 5 and 10 to 13. Both requests are answered 200.
\<close>

theorem lost_update_counterexample:
  "stockOf shop 1 = Some 10
   \<and> body_quantity oversell = Num (- 5) \<and> body_quantity return3 = Num 3
   \<and> (case concurrently interleaved (None, oversell) (None, return3) (shop, Entered, Entered) of
        (s', pa, pb) \<Rightarrow>
          stockOf s' 1 = Some 13
          \<and> map (\<lambda>m. (previousStock m, newStock m)) (transactions s') = [(10, 5), (10, 13)]
          \<and> pa = Responded (Response 200 (StockAdjusted \<lparr>a_id = 1, a_name = ''Widget'',
                 a_previousStock = 10, a_newStock = Num 5, a_adjustment = Num (- 5)\<rparr>))
          \<and> pb = Responded (Response 200 (StockAdjusted \<lparr>a_id = 1, a_name = ''Widget'',
                 a_previousStock = 10, a_newStock = Num 13, a_adjustment = Num 3\<rparr>)))"
  by (simp add: interleaved_def concurrent_eval)

text \<open>
  C6, as amended. When two adjustStock requests on one product, each with a number as
  quantity, run one after the other, all statements of the first before the first
  statement of the second, and both are answered 200 (so no store call of either threw),
  the product ends at its stock plus both quantities, and exactly two movements are
  added, the second starting from the new stock of the first. For the removal of 5 and
  the return of 3 on stock 10 this gives 8 in either order.
\<close>

theorem serial_adjustments_chain:
  assumes P: "find (\<lambda>p. idP p = i) (products s) = Some P"
    and a: "params_id a = i" "body_quantity a = Num qa"
    and b: "params_id b = i" "body_quantity b = Num qb"
    and ran: "concurrently oneAfterTheOther (fa, a) (fb, b) (s, Entered, Entered)
                = (s', Responded ra, Responded rb)"
    and ok: "status ra = 200" "status rb = 200"
  shows "stockOf s' i = Some (stockQuantity P + qa + qb)
         \<and> (\<exists>m1 m2. transactions s' = transactions s @ [m1, m2]
               \<and> productId m1 = i \<and> productId m2 = i
               \<and> previousStock m1 = stockQuantity P
               \<and> newStock m1 = stockQuantity P + qa
               \<and> previousStock m2 = newStock m1
               \<and> newStock m2 = stockQuantity P + qa + qb)"
proof -
  have iP: "idP P = i" using P by (auto dest: find_member)
  let ?s1 = "snd (adjustStock fa s a)"
  from ran have s': "s' = snd (adjustStock fb ?s1 b)"
    and ra: "ra = fst (adjustStock fa s a)"
    and rb: "rb = fst (adjustStock fb ?s1 b)"
    by (simp_all add: concurrently_oneAfterTheOther)
  have run1: "adjustStock fa s a = (ra, ?s1)" by (simp add: ra)
  have run2: "adjustStock fb ?s1 b = (rb, s')" by (simp add: rb s')
  from P a have Pa: "find (\<lambda>p. idP p = params_id a) (products s) = Some P" by simp
  from adjustStock_number_200[OF run1 ok(1) Pa a(2)]
  obtain m1 where ps1: "products ?s1 = stockWritten s (idP P) (stockQuantity P + qa)"
    and t1: "transactions ?s1 = transactions s @ [m1]" "productId m1 = idP P"
      "previousStock m1 = stockQuantity P" "newStock m1 = stockQuantity P + qa"
    by blast
  let ?P1 = "P\<lparr>stockQuantity := stockQuantity P + qa\<rparr>"
  have ps1': "products ?s1 = stockWritten s i (stockQuantity P + qa)"
    using ps1 iP by simp
  have P1: "find (\<lambda>p. idP p = params_id b) (products ?s1) = Some ?P1"
    using find_after_write[OF P iP ps1'] b(1) by simp
  from adjustStock_number_200[OF run2 ok(2) P1 b(2)]
  obtain m2 where ps2: "products s' = stockWritten ?s1 (idP ?P1) (stockQuantity ?P1 + qb)"
    and t2: "transactions s' = transactions ?s1 @ [m2]" "productId m2 = idP ?P1"
      "previousStock m2 = stockQuantity ?P1" "newStock m2 = stockQuantity ?P1 + qb"
    by blast
  have "stockOf ?s1 i = Some (stockQuantity P + qa)" using P1 b(1) by (simp add: stockOf_def)
  moreover have "products s' = stockWritten ?s1 i (stockQuantity P + qa + qb)"
    using ps2 iP by simp
  ultimately have st: "stockOf s' i = Some (stockQuantity P + qa + qb)"
    by (simp add: stockOf_written)
  have "transactions s' = transactions s @ [m1, m2]" using t1(1) t2(1) by simp
  with st t1 t2 iP show ?thesis by auto
qed

theorem serial_adjustments_chain_witness:
  "find (\<lambda>p. idP p = 1) (products shop) = Some widget \<and> stockQuantity widget = 10
   \<and> params_id oversell = 1 \<and> body_quantity oversell = Num (- 5)
   \<and> params_id return3 = 1 \<and> body_quantity return3 = Num 3
   \<and> status (fst (adjustStock None shop oversell)) = 200
   \<and> status (fst (adjustStock None (snd (adjustStock None shop oversell)) return3)) = 200
   \<and> status (fst (adjustStock None shop return3)) = 200
   \<and> status (fst (adjustStock None (snd (adjustStock None shop return3)) oversell)) = 200
   \<and> (case concurrently oneAfterTheOther (None, oversell) (None, return3) (shop, Entered, Entered) of
        (s', pa, pb) \<Rightarrow>
          stockOf s' 1 = Some 8
          \<and> map (\<lambda>m. (previousStock m, newStock m)) (transactions s') = [(10, 5), (5, 8)])
   \<and> (case concurrently oneAfterTheOther (None, return3) (None, oversell) (shop, Entered, Entered) of
        (s', pa, pb) \<Rightarrow>
          stockOf s' 1 = Some 8
          \<and> map (\<lambda>m. (previousStock m, newStock m)) (transactions s') = [(10, 13), (13, 8)])"
proof -
  have found: "find (\<lambda>p. idP p = 1) (products shop) = Some widget"
    by (simp add: shop_def widget_def)
  have ids: "params_id oversell = 1" "params_id return3 = 1"
    and qs: "body_quantity oversell = Num (- 5)" "body_quantity return3 = Num 3"
    by (simp_all add: oversell_def return3_def)
  note general =
    serial_adjustments_chain[OF found ids(1) qs(1) ids(2) qs(2)
      concurrently_oneAfterTheOther serial_statuses(1) serial_statuses(2)]
    serial_adjustments_chain[OF found ids(2) qs(2) ids(1) qs(1)
      concurrently_oneAfterTheOther serial_statuses(3) serial_statuses(4)]
  from general found ids qs serial_statuses sale_then_return return_then_sale show ?thesis
    by (simp add: widget_def)
qed

text \<open>
  C7. The page classifies a product as low on stock exactly when its stock is at most
  its minimum. The lowStock filter of the product list selects with \<^verbatim>\<open>Op.lt\<close>: an
  active product whose stock equals its minimum is low on stock, yet the listing with
  \<^verbatim>\<open>lowStock=true\<close> does not return it.
\<close>

theorem lowStock_filter_misses_minimum:
  "isActive atMinimum \<and> stockQuantity atMinimum = minStockLevel atMinimum
   \<and> isLowStock atMinimum
   \<and> \<not> whereClause iLike lowStockQuery atMinimum
   \<and> getAllProducts iLike None (shop\<lparr>products := [atMinimum]\<rparr>) lowStockQuery
       = Response 200 (ProductList [] \<lparr>total = 0, page = 1, limit = 10, pages = Some 0\<rparr>)"
  by (simp add: atMinimum_def widget_def isLowStock_def whereClause_def lowStockQuery_def
        getAllProducts_def paginate_def Product_findAndCountAll_def throws_def truthy_def
        shop_def Let_def)

text \<open>
  C8 fails on the code for an input that holds an inactive product: the dashboard
  counts and values every product of its input, whatever its \<^verbatim>\<open>isActive\<close>.
\<close>

theorem summarize_counts_inactive_counterexample:
  "\<not> isActive discontinued
   \<and> summarize exactMul (+) 0 [discontinued] = (0, 30, 1)
   \<and> summarize_spec exactMul (+) 0 [discontinued] = (0, 0, 0)"
  by (simp add: summarize_def summarize_spec_def updateDashboardStats_def Let_def
        discontinued_def widget_def exactMul_def isLowStock_def)

text \<open>
  C8, as amended. For every input sequence the dashboard numbers are the count of
  low-stock products, the sum of stock times price, and the number of products, taken
  over all products of the input as if each were active; on an input that holds only
  active products, as the product listing returns it, they are the summary of the
  specification. The numbers are a function of the input sequence alone.
\<close>

theorem summarize_over_input:
  "summarize jsMul jsAdd jsZero ps =
     summarize_spec jsMul jsAdd jsZero (map (\<lambda>p. p\<lparr>isActive := True\<rparr>) ps)
   \<and> ((\<forall>p \<in> set ps. isActive p) \<longrightarrow>
        summarize jsMul jsAdd jsZero ps = summarize_spec jsMul jsAdd jsZero ps)"
proof (intro conjI impI)
  show "summarize jsMul jsAdd jsZero ps =
     summarize_spec jsMul jsAdd jsZero (map (\<lambda>p. p\<lparr>isActive := True\<rparr>) ps)"
    by (rule summarize_as_if_active)
next
  assume "\<forall>p \<in> set ps. isActive p"
  then show "summarize jsMul jsAdd jsZero ps = summarize_spec jsMul jsAdd jsZero ps"
    by (rule summarize_all_active)
qed

theorem summarize_over_input_witness:
  "isActive widget \<and> isActive atMinimum
   \<and> summarize exactMul (+) 0 [widget, atMinimum] = (1, 45, 2)
   \<and> summarize_spec exactMul (+) 0 [widget, atMinimum] = (1, 45, 2)"
  using summarize_over_input[of exactMul "(+)" 0 "[widget, atMinimum]"]
  by (simp add: summarize_spec_def atMinimum_def widget_def exactMul_def isLowStock_def)

text \<open>
  C9 fails on the code for a removal: the response carries the requested quantity with
  its sign, not its magnitude. The sale of 7 on the sample store answers
  \<^verbatim>\<open>adjustment: -7\<close>.
\<close>

theorem adjustment_is_signed_counterexample:
  "fst (adjustStock None shop sale) =
     Response 200 (StockAdjusted \<lparr>a_id = 1, a_name = ''Widget'', a_previousStock = 10,
        a_newStock = Num 3, a_adjustment = Num (- 7)\<rparr>)
   \<and> body_quantity sale = Num (- 7) \<and> mathAbs (body_quantity sale) = Num 7
   \<and> Num (- 7) \<noteq> Num 7"
  by (simp add: sale_shop) (simp add: sale_def js_eval)

text \<open>
  C9, as amended. For a request that passed validation: when the product id is in the
  INTEGER range, the lookup does not throw and finds no product, the answer is 404; when
  the lookup returns a product and the quantity is a number that would make the stock
  negative, the answer is 400 \<^verbatim>\<open>Insufficient stock\<close>; and every 200 answer carries the
  previous stock, the new stock and the quantity as it was requested, with its sign, as
  \<^verbatim>\<open>adjustment\<close>.
\<close>

theorem adjustStock_responses:
  "stockAdjustmentValidation req = [] \<Longrightarrow>
     (throws f ProductFindByPk = None \<and> int (params_id req) \<le> maxInteger
        \<and> find (\<lambda>p. idP p = params_id req) (products s) = None \<longrightarrow>
        fst (adjustStock f s req) = Response 404 (Error ''Product not found''))
     \<and> (\<forall>P. Product_findByPk f s (params_id req) = Inr (Some P) \<longrightarrow>
          (\<forall>q. body_quantity req = Num q \<and> stockQuantity P + q < 0 \<longrightarrow>
             fst (adjustStock f s req) = Response 400 (Error ''Insufficient stock''))
          \<and> (status (fst (adjustStock f s req)) = 200 \<longrightarrow>
               payload (fst (adjustStock f s req)) = StockAdjusted
                 \<lparr>a_id = idP P, a_name = name P, a_previousStock = stockQuantity P,
                  a_newStock = jsPlus (stockQuantity P) (body_quantity req),
                  a_adjustment = body_quantity req\<rparr>))"
  by (auto simp add: adjustStock_def Let_def Product_findByPk_def jsPlus_def jsNegative_def
        jsNumber_def
      split: option.splits sum.splits if_splits)

theorem adjustStock_responses_witness:
  "stockAdjustmentValidation sale = []
   \<and> Product_findByPk None shop (params_id sale) = Inr (Some widget)
   \<and> status (fst (adjustStock None shop sale)) = 200
   \<and> payload (fst (adjustStock None shop sale)) = StockAdjusted
        \<lparr>a_id = 1, a_name = ''Widget'', a_previousStock = 10, a_newStock = Num 3,
         a_adjustment = Num (- 7)\<rparr>
   \<and> stockAdjustmentValidation oversell = []
   \<and> Product_findByPk None afterSale (params_id oversell) = Inr (Some (widget\<lparr>stockQuantity := 3\<rparr>))
   \<and> body_quantity oversell = Num (- 5)
   \<and> fst (adjustStock None afterSale oversell) = Response 400 (Error ''Insufficient stock'')
   \<and> find (\<lambda>p. idP p = 2) (products shop) = None
   \<and> fst (adjustStock None shop (AdjustRequest 2 7 (Num 4) ''receipt'' None))
       = Response 404 (Error ''Product not found'')"
  using adjustStock_responses[of sale None shop]
    adjustStock_responses[of oversell None afterSale]
    adjustStock_responses[of "AdjustRequest 2 7 (Num 4) ''receipt'' None" None shop]
  by (simp add: sale_shop oversell_afterSale)
     (simp add: stockAdjustmentValidation_def sale_def oversell_def Product_findByPk_def
        throws_def shop_def widget_def afterSale_def js_eval)


end
